theory Spec2Isabelle
  imports Main "HOL-Library.Word"
begin

unbundle bit_operations_syntax

section \<open>Go base types\<close>

text \<open>
  Go's \<^verbatim>\<open>int\<close> and \<^verbatim>\<open>uint\<close> are 64 bits wide on the 64-bit targets; both are
  64-bit words here, read with \<open>sint\<close> where the source treats the value as signed.
  A \<^verbatim>\<open>byte\<close> is an 8-bit word. A Go \<^verbatim>\<open>string\<close> is a byte sequence and
  \<^verbatim>\<open>len\<close> counts its bytes, which is what \<open>length\<close> does on a \<open>string\<close>.
  A \<^verbatim>\<open>float64\<close> is kept as its IEEE 754 bit pattern: the only operations the
  code performs on one are the comparison with the constant 0 and the assignment of a
  constant. Pointers that the code tests against \<^verbatim>\<open>nil\<close> are options. A Go
  \<^verbatim>\<open>error\<close> result is an \<open>error option\<close>, with \<open>None\<close> for \<^verbatim>\<open>nil\<close>.
\<close>

type_synonym go_int = "64 word"
type_synonym go_uint = "64 word"
type_synonym float64 = "64 word"

definition float64_is_zero :: "float64 \<Rightarrow> bool" where
  \<comment> \<open>\<^verbatim>\<open>x == 0\<close> on a float64: true of +0.0 and of -0.0, false of everything else
      (NaN included).\<close>
  "float64_is_zero x \<longleftrightarrow> x = 0 \<or> x = 0x8000000000000000"

definition float64_1 :: float64 where
  \<comment> \<open>the bit pattern of 1.0\<close>
  "float64_1 = 0x3FF0000000000000"

definition float64_14 :: float64 where
  \<comment> \<open>the bit pattern of 14.0\<close>
  "float64_14 = 0x402C000000000000"

definition dquote :: char where
  "dquote = CHR 0x22"

fun Join :: "string list \<Rightarrow> string \<Rightarrow> string" where
  \<comment> \<open>\<^verbatim>\<open>strings.Join\<close>: the first element, then the separator before every later one.\<close>
  "Join [] sep = []"
| "Join (e # elems) sep = e @ concat (map (\<lambda>s. sep @ s) elems)"

fun Contains :: "string \<Rightarrow> string \<Rightarrow> bool" where
  \<comment> \<open>\<^verbatim>\<open>strings.Contains(s, substr)\<close>\<close>
  "Contains [] substr = (substr = [])"
| "Contains (c # s) substr = (take (length substr) (c # s) = substr \<or> Contains s substr)"

definition digit :: "nat \<Rightarrow> char" where
  "digit d = ''0123456789'' ! d"

fun decimal :: "nat \<Rightarrow> string" where
  "decimal n = (if n < 10 then [digit n] else decimal (n div 10) @ [digit (n mod 10)])"

declare decimal.simps [simp del]

definition Itoa :: "go_int \<Rightarrow> string" where
  \<comment> \<open>\<^verbatim>\<open>strconv.Itoa(i)\<close> and \<^verbatim>\<open>fmt.Sprintf("%d", i)\<close>: the signed decimal numeral.\<close>
  "Itoa i = (if sint i < 0 then CHR ''-'' # decimal (nat (- sint i)) else decimal (nat (sint i)))"

section \<open>Chart types and the supported-type table\<close>

type_synonym ChartType = "8 word"

definition Area :: ChartType where "Area = 0"

definition AreaStacked :: ChartType where "AreaStacked = 1"

definition AreaPercentStacked :: ChartType where "AreaPercentStacked = 2"

definition Area3D :: ChartType where "Area3D = 3"

definition Area3DStacked :: ChartType where "Area3DStacked = 4"

definition Area3DPercentStacked :: ChartType where "Area3DPercentStacked = 5"

definition Bar :: ChartType where "Bar = 6"

definition BarStacked :: ChartType where "BarStacked = 7"

definition BarPercentStacked :: ChartType where "BarPercentStacked = 8"

definition Bar3DClustered :: ChartType where "Bar3DClustered = 9"

definition Bar3DStacked :: ChartType where "Bar3DStacked = 10"

definition Bar3DPercentStacked :: ChartType where "Bar3DPercentStacked = 11"

definition Bar3DConeClustered :: ChartType where "Bar3DConeClustered = 12"

definition Bar3DConeStacked :: ChartType where "Bar3DConeStacked = 13"

definition Bar3DConePercentStacked :: ChartType where "Bar3DConePercentStacked = 14"

definition Bar3DPyramidClustered :: ChartType where "Bar3DPyramidClustered = 15"

definition Bar3DPyramidStacked :: ChartType where "Bar3DPyramidStacked = 16"

definition Bar3DPyramidPercentStacked :: ChartType where "Bar3DPyramidPercentStacked = 17"

definition Bar3DCylinderClustered :: ChartType where "Bar3DCylinderClustered = 18"

definition Bar3DCylinderStacked :: ChartType where "Bar3DCylinderStacked = 19"

definition Bar3DCylinderPercentStacked :: ChartType where "Bar3DCylinderPercentStacked = 20"

definition Col :: ChartType where "Col = 21"

definition ColStacked :: ChartType where "ColStacked = 22"

definition ColPercentStacked :: ChartType where "ColPercentStacked = 23"

definition Col3D :: ChartType where "Col3D = 24"

definition Col3DClustered :: ChartType where "Col3DClustered = 25"

definition Col3DStacked :: ChartType where "Col3DStacked = 26"

definition Col3DPercentStacked :: ChartType where "Col3DPercentStacked = 27"

definition Col3DCone :: ChartType where "Col3DCone = 28"

definition Col3DConeClustered :: ChartType where "Col3DConeClustered = 29"

definition Col3DConeStacked :: ChartType where "Col3DConeStacked = 30"

definition Col3DConePercentStacked :: ChartType where "Col3DConePercentStacked = 31"

definition Col3DPyramid :: ChartType where "Col3DPyramid = 32"

definition Col3DPyramidClustered :: ChartType where "Col3DPyramidClustered = 33"

definition Col3DPyramidStacked :: ChartType where "Col3DPyramidStacked = 34"

definition Col3DPyramidPercentStacked :: ChartType where "Col3DPyramidPercentStacked = 35"

definition Col3DCylinder :: ChartType where "Col3DCylinder = 36"

definition Col3DCylinderClustered :: ChartType where "Col3DCylinderClustered = 37"

definition Col3DCylinderStacked :: ChartType where "Col3DCylinderStacked = 38"

definition Col3DCylinderPercentStacked :: ChartType where "Col3DCylinderPercentStacked = 39"

definition Doughnut :: ChartType where "Doughnut = 40"

definition Line :: ChartType where "Line = 41"

definition Line3D :: ChartType where "Line3D = 42"

definition Pie :: ChartType where "Pie = 43"

definition Pie3D :: ChartType where "Pie3D = 44"

definition PieOfPie :: ChartType where "PieOfPie = 45"

definition BarOfPie :: ChartType where "BarOfPie = 46"

definition Radar :: ChartType where "Radar = 47"

definition Scatter :: ChartType where "Scatter = 48"

definition Surface3D :: ChartType where "Surface3D = 49"

definition WireframeSurface3D :: ChartType where "WireframeSurface3D = 50"

definition Contour :: ChartType where "Contour = 51"

definition WireframeContour :: ChartType where "WireframeContour = 52"

definition Bubble :: ChartType where "Bubble = 53"

definition Bubble3D :: ChartType where "Bubble3D = 54"


definition chartValAxNumFmtFormatCode :: "(ChartType \<times> string) list" where
  \<comment> \<open>the Go map literal, in source order; looked up with \<open>map_of\<close>\<close>
  "chartValAxNumFmtFormatCode = [
     (Area, ''General''),
     (AreaStacked, ''General''),
     (AreaPercentStacked, ''0%''),
     (Area3D, ''General''),
     (Area3DStacked, ''General''),
     (Area3DPercentStacked, ''0%''),
     (Bar, ''General''),
     (BarStacked, ''General''),
     (BarPercentStacked, ''0%''),
     (Bar3DClustered, ''General''),
     (Bar3DStacked, ''General''),
     (Bar3DPercentStacked, ''0%''),
     (Bar3DConeClustered, ''General''),
     (Bar3DConeStacked, ''General''),
     (Bar3DConePercentStacked, ''0%''),
     (Bar3DPyramidClustered, ''General''),
     (Bar3DPyramidStacked, ''General''),
     (Bar3DPyramidPercentStacked, ''0%''),
     (Bar3DCylinderClustered, ''General''),
     (Bar3DCylinderStacked, ''General''),
     (Bar3DCylinderPercentStacked, ''0%''),
     (Col, ''General''),
     (ColStacked, ''General''),
     (ColPercentStacked, ''0%''),
     (Col3D, ''General''),
     (Col3DClustered, ''General''),
     (Col3DStacked, ''General''),
     (Col3DPercentStacked, ''0%''),
     (Col3DCone, ''General''),
     (Col3DConeClustered, ''General''),
     (Col3DConeStacked, ''General''),
     (Col3DConePercentStacked, ''0%''),
     (Col3DPyramid, ''General''),
     (Col3DPyramidClustered, ''General''),
     (Col3DPyramidStacked, ''General''),
     (Col3DPyramidPercentStacked, ''0%''),
     (Col3DCylinder, ''General''),
     (Col3DCylinderClustered, ''General''),
     (Col3DCylinderStacked, ''General''),
     (Col3DCylinderPercentStacked, ''0%''),
     (Doughnut, ''General''),
     (Line, ''General''),
     (Line3D, ''General''),
     (Pie, ''General''),
     (Pie3D, ''General''),
     (PieOfPie, ''General''),
     (BarOfPie, ''General''),
     (Radar, ''General''),
     (Scatter, ''General''),
     (Surface3D, ''General''),
     (WireframeSurface3D, ''General''),
     (Contour, ''General''),
     (WireframeContour, ''General''),
     (Bubble, ''General''),
     (Bubble3D, ''General'')]"

section \<open>Errors\<close>

text \<open>
  \<open>Errorf\<close> is an error made by \<^verbatim>\<open>fmt.Errorf\<close> from a message, and also stands
  for the errors that the collaborators of the chart assembly return.
  \<open>PanicNilDereference\<close> is the run-time panic of a field read through a nil pointer.
\<close>

datatype error =
    ErrParameterInvalid
  | ErrUnsupportedChartType ChartType
  | Errorf string
  | PanicNilDereference

definition newUnsupportedChartType :: "ChartType \<Rightarrow> error" where
  \<comment> \<open>Modelled from the spec: the constructor of the unsupported-chart-type error is
      declared in another file of the package; the error identifies the offending type.\<close>
  "newUnsupportedChartType chartType = ErrUnsupportedChartType chartType"

section \<open>Chart configuration\<close>

text \<open>
  Modelled from the spec: the struct declarations are in another file of the package.
  The records carry the fields that the functions below read or write, under the names
  and with the types the code uses them at, and for the legend and for a title run one
  more field of the specification's data model (the show-key flag, the text of the run)
  that the functions have to leave alone.

  The code updates a configuration in place through its pointer; here a function returns
  the updated configuration. A configuration, or a font, that is reachable through two
  pointers is defaulted twice by the code and once here: the result is the same, because
  the defaulting of an already defaulted value changes nothing
  (\<open>parseChartOptions_run_idem\<close> and \<open>parseChartOptions_fill_idem\<close> below).
\<close>

record Font =
  Color :: string
  Size :: float64

record RichTextRun =
  Font :: "Font option"
  Text :: string

record ChartDimension =
  Width :: go_uint
  Height :: go_uint

record GraphicOptions =
  PrintObject :: "bool option"
  Locked :: "bool option"
  ScaleX :: float64
  ScaleY :: float64

record ChartLegend =
  Position :: string
  ShowLegendKey :: bool

record Chart =
  Type :: ChartType
  Format :: GraphicOptions
  Dimension :: ChartDimension
  Legend :: ChartLegend
  Title :: "RichTextRun list"
  VaryColors :: "bool option"
  ShowBlanksAs :: string

definition defaultChartDimensionWidth :: go_uint where
  \<comment> \<open>Modelled from the spec: the constant is declared in another file of the package; "width 480".\<close>
  "defaultChartDimensionWidth = 480"

definition defaultChartDimensionHeight :: go_uint where
  \<comment> \<open>Modelled from the spec: the constant is declared in another file of the package; "height 260".\<close>
  "defaultChartDimensionHeight = 260"

definition defaultPictureScale :: float64 where
  \<comment> \<open>Modelled from the spec: the constant is declared in another file of the package;
      "horizontal/vertical picture scale 1.0".\<close>
  "defaultPictureScale = float64_1"

definition defaultChartLegendPosition :: string where
  \<comment> \<open>Modelled from the spec: the constant is declared in another file of the package;
      "legend position bottom".\<close>
  "defaultChartLegendPosition = ''bottom''"

definition defaultChartShowBlanksAs :: string where
  \<comment> \<open>Modelled from the spec: the constant is declared in another file of the package;
      "blanks-as-gap".\<close>
  "defaultChartShowBlanksAs = ''gap''"

definition zeroFont :: Font where
  \<comment> \<open>\<^verbatim>\<open>&Font{}\<close>: every field at its zero value\<close>
  "zeroFont = \<lparr>Color = [], Size = 0\<rparr>"

definition parseChartOptions_run :: "RichTextRun \<Rightarrow> RichTextRun" where
  \<comment> \<open>the body of the loop over \<^verbatim>\<open>opts.Title\<close>, for one run\<close>
  "parseChartOptions_run run =
     (let font = (case Font run of None \<Rightarrow> zeroFont | Some fnt \<Rightarrow> fnt);
          font = (if Color font = [] then font\<lparr>Color := ''595959''\<rparr> else font);
          font = (if float64_is_zero (Size font) then font\<lparr>Size := float64_14\<rparr> else font)
      in run\<lparr>Font := Some font\<rparr>)"

definition parseChartOptions_fill :: "Chart \<Rightarrow> Chart" where
  \<comment> \<open>the assignments of \<^verbatim>\<open>parseChartOptions\<close> on a non-nil configuration, in source order\<close>
  "parseChartOptions_fill opts0 =
     (let opts = (if Width (Dimension opts0) = 0
                  then opts0\<lparr>Dimension := (Dimension opts0)\<lparr>Width := defaultChartDimensionWidth\<rparr>\<rparr>
                  else opts0);
          opts = (if Height (Dimension opts) = 0
                  then opts\<lparr>Dimension := (Dimension opts)\<lparr>Height := defaultChartDimensionHeight\<rparr>\<rparr>
                  else opts);
          opts = (if PrintObject (Format opts) = None
                  then opts\<lparr>Format := (Format opts)\<lparr>PrintObject := Some True\<rparr>\<rparr>
                  else opts);
          opts = (if Locked (Format opts) = None
                  then opts\<lparr>Format := (Format opts)\<lparr>Locked := Some False\<rparr>\<rparr>
                  else opts);
          opts = (if float64_is_zero (ScaleX (Format opts))
                  then opts\<lparr>Format := (Format opts)\<lparr>ScaleX := defaultPictureScale\<rparr>\<rparr>
                  else opts);
          opts = (if float64_is_zero (ScaleY (Format opts))
                  then opts\<lparr>Format := (Format opts)\<lparr>ScaleY := defaultPictureScale\<rparr>\<rparr>
                  else opts);
          opts = (if Position (Legend opts) = []
                  then opts\<lparr>Legend := (Legend opts)\<lparr>Position := defaultChartLegendPosition\<rparr>\<rparr>
                  else opts);
          opts = opts\<lparr>Title := map parseChartOptions_run (Title opts)\<rparr>;
          opts = (if VaryColors opts = None then opts\<lparr>VaryColors := Some True\<rparr> else opts);
          opts = (if ShowBlanksAs opts = []
                  then opts\<lparr>ShowBlanksAs := defaultChartShowBlanksAs\<rparr>
                  else opts)
      in opts)"

definition parseChartOptions :: "Chart option \<Rightarrow> error + Chart" where
  "parseChartOptions opts =
     (case opts of
        None \<Rightarrow> Inl ErrParameterInvalid
      | Some c \<Rightarrow> Inr (parseChartOptions_fill c))"

fun getChartOptions_combo :: "Chart list \<Rightarrow> Chart option list \<Rightarrow> Chart list \<times> error option" where
  \<comment> \<open>the loop over \<^verbatim>\<open>combo\<close>: the charts accepted so far, and the error of an early return\<close>
  "getChartOptions_combo comboCharts [] = (comboCharts, None)"
| "getChartOptions_combo comboCharts (comboFormat # combo) =
     (case parseChartOptions comboFormat of
        Inl err \<Rightarrow> (comboCharts, Some err)
      | Inr comboChart \<Rightarrow>
          if map_of chartValAxNumFmtFormatCode (Type comboChart) = None
          then (comboCharts, Some (newUnsupportedChartType (Type comboChart)))
          else getChartOptions_combo (comboCharts @ [comboChart]) combo)"

definition getChartOptions :: "Chart option \<Rightarrow> Chart option list \<Rightarrow> Chart option \<times> Chart list \<times> error option" where
  "getChartOptions opts combo =
     (case parseChartOptions opts of
        Inl err \<Rightarrow> (None, [], Some err)
      | Inr options \<Rightarrow>
          (case getChartOptions_combo [] combo of
             (comboCharts, Some err) \<Rightarrow> (Some options, comboCharts, Some err)
           | (comboCharts, None) \<Rightarrow>
               if map_of chartValAxNumFmtFormatCode (Type options) = None
               then (Some options, comboCharts, Some (newUnsupportedChartType (Type options)))
               else (Some options, comboCharts, None)))"


subsection \<open>The order of the checks, as a specification\<close>

text \<open>
  The two definitions below are not translated from the code. They describe what
  \<^verbatim>\<open>getChartOptions\<close> is compared with: the check of one chart (it must be present,
  and its type must be a key of the supported-type table), and the outcome of a list of
  charts checked from left to right, which is the failure of the first chart that does not
  pass.
\<close>

definition checkChart :: "Chart option \<Rightarrow> error option" where
  "checkChart x =
     (case x of
        None \<Rightarrow> Some ErrParameterInvalid
      | Some c \<Rightarrow>
          if Type c \<in> dom (map_of chartValAxNumFmtFormatCode) then None
          else Some (ErrUnsupportedChartType (Type c)))"

definition firstFailure :: "Chart option list \<Rightarrow> error option" where
  "firstFailure xs =
     (case dropWhile (\<lambda>x. checkChart x = None) xs of
        [] \<Rightarrow> None
      | x # rest \<Rightarrow> checkChart x)"

definition chartOfType :: "ChartType \<Rightarrow> Chart" where
  \<comment> \<open>the composite literal \<^verbatim>\<open>Chart{Type: t}\<close>: every other field at its zero value\<close>
  "chartOfType t =
     \<lparr>Type = t,
      Format = \<lparr>PrintObject = None, Locked = None, ScaleX = 0, ScaleY = 0\<rparr>,
      Dimension = \<lparr>Width = 0, Height = 0\<rparr>,
      Legend = \<lparr>Position = [], ShowLegendKey = False\<rparr>,
      Title = [],
      VaryColors = None,
      ShowBlanksAs = []\<rparr>"

section \<open>Adding a chart to a worksheet\<close>

text \<open>
  The package keeps its parts in \<^verbatim>\<open>f.Pkg\<close>, a store from part path to content;
  an association list stands for it, and the rest of the file structure is the extension
  of the record. The worksheet resolver, the drawing helpers and the allocators of
  relationships and content types are declared in other files of the package: \<^verbatim>\<open>AddChart\<close>
  takes them as parameters, each one receiving the file and returning it updated.
\<close>

record File =
  Pkg :: "(string \<times> string) list"

record ('f, 'ws, 'ns) collaborators =
  workSheetReader :: "'f \<Rightarrow> string \<Rightarrow> (error + 'ws) \<times> 'f"
  countDrawings :: "'f \<Rightarrow> go_int"
  prepareDrawing :: "'f \<Rightarrow> 'ws \<Rightarrow> go_int \<Rightarrow> string \<Rightarrow> string \<Rightarrow> (go_int \<times> string) \<times> 'f"
  addRels :: "'f \<Rightarrow> string \<Rightarrow> string \<Rightarrow> string \<Rightarrow> string \<Rightarrow> go_int \<times> 'f"
  addDrawingChart :: "'f \<Rightarrow> string \<Rightarrow> string \<Rightarrow> string \<Rightarrow> go_int \<Rightarrow> go_int \<Rightarrow> go_int
                        \<Rightarrow> GraphicOptions \<Rightarrow> error option \<times> 'f"
  addChart :: "'f \<Rightarrow> Chart \<Rightarrow> Chart list \<Rightarrow> 'f"
  addContentTypePart :: "'f \<Rightarrow> go_int \<Rightarrow> string \<Rightarrow> error option \<times> 'f"
  addSheetNameSpace :: "'f \<Rightarrow> string \<Rightarrow> 'ns \<Rightarrow> 'f"
  SourceRelationshipChart :: string
  SourceRelationship :: 'ns

definition countCharts :: "'a File_scheme \<Rightarrow> go_int" where
  "countCharts f = of_nat (length (filter (\<lambda>(k, v). Contains k ''xl/charts/chart'') (Pkg f)))"

definition AddChart ::
  "('a File_scheme, 'ws, 'ns) collaborators \<Rightarrow> 'a File_scheme \<Rightarrow> string \<Rightarrow> string
     \<Rightarrow> Chart option \<Rightarrow> Chart option list \<Rightarrow> error option \<times> 'a File_scheme" where
  "AddChart env f sheet cell chart combo =
     (case workSheetReader env f sheet of
        (Inl err, f) \<Rightarrow> (Some err, f)
      | (Inr ws, f) \<Rightarrow>
     (case getChartOptions chart combo of
        (opts, comboCharts, Some err) \<Rightarrow> (Some err, f)
      | (opts, comboCharts, None) \<Rightarrow>
     (let drawingID = countDrawings env f + 1;
          chartID = countCharts f + 1;
          drawingXML = ''xl/drawings/drawing'' @ Itoa drawingID @ ''.xml'';
          ((drawingID, drawingXML), f) = prepareDrawing env f ws drawingID sheet drawingXML;
          drawingRels = ''xl/drawings/_rels/drawing'' @ Itoa drawingID @ ''.xml.rels'';
          (drawingRID, f) = addRels env f drawingRels (SourceRelationshipChart env)
                              (''../charts/chart'' @ Itoa chartID @ ''.xml'') []
      in case opts of
           None \<Rightarrow> (Some PanicNilDereference, f)
         | Some opts \<Rightarrow>
     (case addDrawingChart env f sheet drawingXML cell (Width (Dimension opts))
             (Height (Dimension opts)) drawingRID (Format opts) of
        (Some err, f) \<Rightarrow> (Some err, f)
      | (None, f) \<Rightarrow>
     (let f = addChart env f opts comboCharts
      in case addContentTypePart env f chartID ''chart'' of
           (Some err, f) \<Rightarrow> (Some err, f)
         | (None, f) \<Rightarrow>
     (let (unused, f) = addContentTypePart env f drawingID ''drawings'';
          f = addSheetNameSpace env f sheet (SourceRelationship env)
      in (None, f)))))))"

section \<open>Data validation rules\<close>

type_synonym DataValidationType = go_int
type_synonym DataValidationErrorStyle = go_int
type_synonym DataValidationOperator = go_int

definition typeNone :: DataValidationType where "typeNone = 1"
definition DataValidationTypeCustom :: DataValidationType where "DataValidationTypeCustom = 2"
definition DataValidationTypeDate :: DataValidationType where "DataValidationTypeDate = 3"
definition DataValidationTypeDecimal :: DataValidationType where "DataValidationTypeDecimal = 4"
definition typeList :: DataValidationType where "typeList = 5"
definition DataValidationTypeTextLeng :: DataValidationType where "DataValidationTypeTextLeng = 6"
definition DataValidationTypeTime :: DataValidationType where "DataValidationTypeTime = 7"
definition DataValidationTypeWhole :: DataValidationType where "DataValidationTypeWhole = 8"

definition dataValidationFormulaStrLen :: nat where
  \<comment> \<open>255 characters + 2 quotes\<close>
  "dataValidationFormulaStrLen = 257"

definition dataValidationFormulaStrLenErr :: string where
  "dataValidationFormulaStrLenErr = ''data validation must be 0-255 characters''"

definition DataValidationErrorStyleStop :: DataValidationErrorStyle where
  "DataValidationErrorStyleStop = 1"
definition DataValidationErrorStyleWarning :: DataValidationErrorStyle where
  "DataValidationErrorStyleWarning = 2"
definition DataValidationErrorStyleInformation :: DataValidationErrorStyle where
  "DataValidationErrorStyleInformation = 3"

definition styleStop :: string where "styleStop = ''stop''"
definition styleWarning :: string where "styleWarning = ''warning''"
definition styleInformation :: string where "styleInformation = ''information''"

definition DataValidationOperatorBetween :: DataValidationOperator where
  "DataValidationOperatorBetween = 1"
definition DataValidationOperatorEqual :: DataValidationOperator where
  "DataValidationOperatorEqual = 2"
definition DataValidationOperatorGreaterThan :: DataValidationOperator where
  "DataValidationOperatorGreaterThan = 3"
definition DataValidationOperatorGreaterThanOrEqual :: DataValidationOperator where
  "DataValidationOperatorGreaterThanOrEqual = 4"
definition DataValidationOperatorLessThan :: DataValidationOperator where
  "DataValidationOperatorLessThan = 5"
definition DataValidationOperatorLessThanOrEqual :: DataValidationOperator where
  "DataValidationOperatorLessThanOrEqual = 6"
definition DataValidationOperatorNotBetween :: DataValidationOperator where
  "DataValidationOperatorNotBetween = 7"
definition DataValidationOperatorNotEqual :: DataValidationOperator where
  "DataValidationOperatorNotEqual = 8"

text \<open>
  Modelled from the spec: the struct declaration is in another file of the package; the record has the fields the
  builder reads or writes. A setter updates the rule in place; here it returns the
  updated rule, next to its error result when it has one.
\<close>

record DataValidation =
  AllowBlank :: bool
  Error :: "string option"
  ErrorStyle :: "string option"
  ErrorTitle :: "string option"
  Operator :: string
  Prompt :: "string option"
  PromptTitle :: "string option"
  ShowErrorMessage :: bool
  ShowInputMessage :: bool
  Sqref :: string
  Type :: string
  Formula1 :: string
  Formula2 :: string

definition NewDataValidation :: "bool \<Rightarrow> DataValidation" where
  \<comment> \<open>the fields the struct literal leaves out are at their zero values\<close>
  "NewDataValidation allowBlank =
     \<lparr>AllowBlank = allowBlank, Error = None, ErrorStyle = None, ErrorTitle = None,
      Operator = [], Prompt = None, PromptTitle = None,
      ShowErrorMessage = False, ShowInputMessage = False,
      Sqref = [], Type = [], Formula1 = [], Formula2 = []\<rparr>"

definition convDataValidationType :: "DataValidationType \<Rightarrow> string" where
  \<comment> \<open>a key that is missing from a Go map reads as the zero value, the empty string\<close>
  "convDataValidationType t =
     (case map_of [(typeNone, ''none''),
                   (DataValidationTypeCustom, ''custom''),
                   (DataValidationTypeDate, ''date''),
                   (DataValidationTypeDecimal, ''decimal''),
                   (typeList, ''list''),
                   (DataValidationTypeTextLeng, ''textLength''),
                   (DataValidationTypeTime, ''time''),
                   (DataValidationTypeWhole, ''whole'')] t of
        None \<Rightarrow> [] | Some s \<Rightarrow> s)"

definition convDataValidationOperatior :: "DataValidationOperator \<Rightarrow> string" where
  "convDataValidationOperatior o' =
     (case map_of [(DataValidationOperatorBetween, ''between''),
                   (DataValidationOperatorEqual, ''equal''),
                   (DataValidationOperatorGreaterThan, ''greaterThan''),
                   (DataValidationOperatorGreaterThanOrEqual, ''greaterThanOrEqual''),
                   (DataValidationOperatorLessThan, ''lessThan''),
                   (DataValidationOperatorLessThanOrEqual, ''lessThanOrEqual''),
                   (DataValidationOperatorNotBetween, ''notBetween''),
                   (DataValidationOperatorNotEqual, ''notEqual'')] o' of
        None \<Rightarrow> [] | Some s \<Rightarrow> s)"

definition SetError :: "DataValidationErrorStyle \<Rightarrow> string \<Rightarrow> string \<Rightarrow> DataValidation \<Rightarrow> DataValidation" where
  "SetError style title msg dd =
     (let dd = dd\<lparr>Error := Some msg\<rparr>;
          dd = dd\<lparr>ErrorTitle := Some title\<rparr>;
          strStyle = styleStop;
          strStyle = (if style = DataValidationErrorStyleStop then styleStop
                      else if style = DataValidationErrorStyleWarning then styleWarning
                      else if style = DataValidationErrorStyleInformation then styleInformation
                      else strStyle);
          dd = dd\<lparr>ShowErrorMessage := True\<rparr>
      in dd\<lparr>ErrorStyle := Some strStyle\<rparr>)"

definition SetInput :: "string \<Rightarrow> string \<Rightarrow> DataValidation \<Rightarrow> DataValidation" where
  "SetInput title msg dd =
     dd\<lparr>ShowInputMessage := True, PromptTitle := Some title, Prompt := Some msg\<rparr>"

definition SetDropList :: "string list \<Rightarrow> DataValidation \<Rightarrow> error option \<times> DataValidation" where
  "SetDropList keys dd =
     (let dd = dd\<lparr>Formula1 := [dquote] @ Join keys '','' @ [dquote]\<rparr>;
          dd = dd\<lparr>DataValidation.Type := convDataValidationType typeList\<rparr>
      in (None, dd))"

definition SetRange ::
  "go_int \<Rightarrow> go_int \<Rightarrow> DataValidationType \<Rightarrow> DataValidationOperator \<Rightarrow> DataValidation
     \<Rightarrow> error option \<times> DataValidation" where
  "SetRange f1 f2 t o' dd =
     (let formula1 = Itoa f1;
          formula2 = Itoa f2
      in if dataValidationFormulaStrLen < length (Formula1 dd)
            \<or> dataValidationFormulaStrLen < length (Formula2 dd)
         then (Some (Errorf dataValidationFormulaStrLenErr), dd)
         else (None, dd\<lparr>Formula1 := formula1, Formula2 := formula2,
                          DataValidation.Type := convDataValidationType t,
                          Operator := convDataValidationOperatior o'\<rparr>))"

definition SetSqref :: "string \<Rightarrow> DataValidation \<Rightarrow> DataValidation" where
  "SetSqref sqref dd =
     (if Sqref dd = [] then dd\<lparr>Sqref := sqref\<rparr>
      else dd\<lparr>Sqref := Sqref dd @ '' '' @ sqref\<rparr>)"



section \<open>Properties of the chart options\<close>

subsection \<open>The supported-type table\<close>

lemmas ChartType_defs =
  Area_def AreaStacked_def AreaPercentStacked_def Area3D_def Area3DStacked_def
  Area3DPercentStacked_def Bar_def BarStacked_def BarPercentStacked_def Bar3DClustered_def
  Bar3DStacked_def Bar3DPercentStacked_def Bar3DConeClustered_def Bar3DConeStacked_def Bar3DConePercentStacked_def
  Bar3DPyramidClustered_def Bar3DPyramidStacked_def Bar3DPyramidPercentStacked_def Bar3DCylinderClustered_def Bar3DCylinderStacked_def
  Bar3DCylinderPercentStacked_def Col_def ColStacked_def ColPercentStacked_def Col3D_def
  Col3DClustered_def Col3DStacked_def Col3DPercentStacked_def Col3DCone_def Col3DConeClustered_def
  Col3DConeStacked_def Col3DConePercentStacked_def Col3DPyramid_def Col3DPyramidClustered_def Col3DPyramidStacked_def
  Col3DPyramidPercentStacked_def Col3DCylinder_def Col3DCylinderClustered_def Col3DCylinderStacked_def Col3DCylinderPercentStacked_def
  Doughnut_def Line_def Line3D_def Pie_def Pie3D_def
  PieOfPie_def BarOfPie_def Radar_def Scatter_def Surface3D_def
  WireframeSurface3D_def Contour_def WireframeContour_def Bubble_def Bubble3D_def

lemma table_keys: "map fst chartValAxNumFmtFormatCode = map of_nat [0..<55]"
  by (simp add: chartValAxNumFmtFormatCode_def ChartType_defs upt_rec)

lemma of_nat_image_less: "(t :: 8 word) \<in> of_nat ` {0..<55} \<longleftrightarrow> t < 55"
proof
  assume "t \<in> of_nat ` {0..<55}"
  then obtain n where n: "n < 55" "t = of_nat n" by auto
  then have "unat t = n" by (simp add: unat_of_nat)
  with n show "t < 55" by (simp add: word_less_nat_alt)
next
  assume "t < 55"
  then have "unat t < 55" by (simp add: word_less_nat_alt)
  moreover have "t = of_nat (unat t)" by simp
  ultimately show "t \<in> of_nat ` {0..<55}" by (metis atLeastLessThan_iff image_eqI le0)
qed

lemma supported_iff: "t \<in> dom (map_of chartValAxNumFmtFormatCode) \<longleftrightarrow> t < 55"
proof -
  have "t \<in> dom (map_of chartValAxNumFmtFormatCode) \<longleftrightarrow> t \<in> set (map fst chartValAxNumFmtFormatCode)"
    by (simp add: dom_map_of_conv_image_fst)
  also have "\<dots> \<longleftrightarrow> t \<in> of_nat ` {0..<55}" by (simp only: table_keys set_map set_upt)
  finally show ?thesis by (simp only: of_nat_image_less)
qed

subsection \<open>Defaulting\<close>

lemma float64_consts_nonzero: "\<not> float64_is_zero float64_1" "\<not> float64_is_zero float64_14"
  by (simp_all add: float64_is_zero_def float64_1_def float64_14_def)

lemma step_updates:
  "\<And>(r::Chart) d. (if Width (Dimension r) = 0 then r\<lparr>Dimension := (Dimension r)\<lparr>Width := d\<rparr>\<rparr> else r)
      = Dimension_update (Width_update (\<lambda>w. if w = 0 then d else w)) r"
  "\<And>(r::Chart) d. (if Height (Dimension r) = 0 then r\<lparr>Dimension := (Dimension r)\<lparr>Height := d\<rparr>\<rparr> else r)
      = Dimension_update (Height_update (\<lambda>w. if w = 0 then d else w)) r"
  "\<And>(r::Chart) d. (if PrintObject (Format r) = None then r\<lparr>Format := (Format r)\<lparr>PrintObject := d\<rparr>\<rparr> else r)
      = Format_update (PrintObject_update (\<lambda>w. if w = None then d else w)) r"
  "\<And>(r::Chart) d. (if Locked (Format r) = None then r\<lparr>Format := (Format r)\<lparr>Locked := d\<rparr>\<rparr> else r)
      = Format_update (Locked_update (\<lambda>w. if w = None then d else w)) r"
  "\<And>(r::Chart) d. (if float64_is_zero (ScaleX (Format r)) then r\<lparr>Format := (Format r)\<lparr>ScaleX := d\<rparr>\<rparr> else r)
      = Format_update (ScaleX_update (\<lambda>w. if float64_is_zero w then d else w)) r"
  "\<And>(r::Chart) d. (if float64_is_zero (ScaleY (Format r)) then r\<lparr>Format := (Format r)\<lparr>ScaleY := d\<rparr>\<rparr> else r)
      = Format_update (ScaleY_update (\<lambda>w. if float64_is_zero w then d else w)) r"
  "\<And>(r::Chart) d. (if Position (Legend r) = [] then r\<lparr>Legend := (Legend r)\<lparr>Position := d\<rparr>\<rparr> else r)
      = Legend_update (Position_update (\<lambda>w. if w = [] then d else w)) r"
  "\<And>(r::Chart) g. r\<lparr>Title := map g (Title r)\<rparr> = Title_update (map g) r"
  "\<And>(r::Chart) d. (if VaryColors r = None then r\<lparr>VaryColors := d\<rparr> else r)
      = VaryColors_update (\<lambda>w. if w = None then d else w) r"
  "\<And>(r::Chart) d. (if ShowBlanksAs r = [] then r\<lparr>ShowBlanksAs := d\<rparr> else r)
      = ShowBlanksAs_update (\<lambda>w. if w = [] then d else w) r"
  by simp_all

lemma fill_updates:
  "parseChartOptions_fill c =
    ShowBlanksAs_update (\<lambda>w. if w = [] then defaultChartShowBlanksAs else w)
     (VaryColors_update (\<lambda>w. if w = None then Some True else w)
      (Title_update (map parseChartOptions_run)
       (Legend_update (Position_update (\<lambda>w. if w = [] then defaultChartLegendPosition else w))
        (Format_update (ScaleY_update (\<lambda>w. if float64_is_zero w then defaultPictureScale else w))
         (Format_update (ScaleX_update (\<lambda>w. if float64_is_zero w then defaultPictureScale else w))
          (Format_update (Locked_update (\<lambda>w. if w = None then Some False else w))
           (Format_update (PrintObject_update (\<lambda>w. if w = None then Some True else w))
            (Dimension_update (Height_update (\<lambda>w. if w = 0 then defaultChartDimensionHeight else w))
             (Dimension_update (Width_update (\<lambda>w. if w = 0 then defaultChartDimensionWidth else w)) c)))))))))"
  unfolding parseChartOptions_fill_def
  by (simp only: step_updates) (simp only: Let_def)

lemma parseChartOptions_run_idem:
  "parseChartOptions_run (parseChartOptions_run r) = parseChartOptions_run r"
  by (simp add: parseChartOptions_run_def Let_def float64_consts_nonzero split: option.splits)

lemma parseChartOptions_fill_Type: "Chart.Type (parseChartOptions_fill c) = Chart.Type c"
  by (simp add: fill_updates)

lemma parseChartOptions_fill_idem:
  "parseChartOptions_fill (parseChartOptions_fill c) = parseChartOptions_fill c"
proof (rule Chart.equality)
  show "Chart.Type (parseChartOptions_fill (parseChartOptions_fill c)) = Chart.Type (parseChartOptions_fill c)"
    by (simp add: fill_updates)
  show "Format (parseChartOptions_fill (parseChartOptions_fill c)) = Format (parseChartOptions_fill c)"
    by (simp add: fill_updates float64_consts_nonzero defaultPictureScale_def)
  show "Dimension (parseChartOptions_fill (parseChartOptions_fill c)) = Dimension (parseChartOptions_fill c)"
    by (simp add: fill_updates defaultChartDimensionWidth_def defaultChartDimensionHeight_def)
  show "Legend (parseChartOptions_fill (parseChartOptions_fill c)) = Legend (parseChartOptions_fill c)"
    by (simp add: fill_updates defaultChartLegendPosition_def)
  show "Title (parseChartOptions_fill (parseChartOptions_fill c)) = Title (parseChartOptions_fill c)"
    by (simp add: fill_updates parseChartOptions_run_idem)
  show "VaryColors (parseChartOptions_fill (parseChartOptions_fill c)) = VaryColors (parseChartOptions_fill c)"
    by (simp add: fill_updates)
  show "ShowBlanksAs (parseChartOptions_fill (parseChartOptions_fill c)) = ShowBlanksAs (parseChartOptions_fill c)"
    by (simp add: fill_updates defaultChartShowBlanksAs_def)
  show "Chart.more (parseChartOptions_fill (parseChartOptions_fill c)) = Chart.more (parseChartOptions_fill c)"
    by (simp add: fill_updates)
qed

lemma parseChartOptions_run_eq:
  "parseChartOptions_run run =
     \<lparr>Font = Some (case Font run of
                     None \<Rightarrow> \<lparr>Color = ''595959'', Size = float64_14\<rparr>
                   | Some fnt \<Rightarrow>
                       \<lparr>Color = (if Color fnt = [] then ''595959'' else Color fnt),
                        Size = (if float64_is_zero (Size fnt) then float64_14 else Size fnt)\<rparr>),
      Text = Text run\<rparr>"
  by (cases run; cases "Font run")
     (simp_all add: parseChartOptions_run_def Let_def zeroFont_def float64_is_zero_def)

lemma parseChartOptions_fill_eq:
  "parseChartOptions_fill c =
     \<lparr>Chart.Type = Chart.Type c,
      Format =
        \<lparr>PrintObject = (if PrintObject (Format c) = None then Some True
                         else PrintObject (Format c)),
         Locked = (if Locked (Format c) = None then Some False else Locked (Format c)),
         ScaleX = (if float64_is_zero (ScaleX (Format c)) then float64_1
                   else ScaleX (Format c)),
         ScaleY = (if float64_is_zero (ScaleY (Format c)) then float64_1
                   else ScaleY (Format c))\<rparr>,
      Dimension =
        \<lparr>Width = (if Width (Dimension c) = 0 then 480 else Width (Dimension c)),
         Height = (if Height (Dimension c) = 0 then 260 else Height (Dimension c))\<rparr>,
      Legend =
        \<lparr>Position = (if Position (Legend c) = [] then ''bottom'' else Position (Legend c)),
         ShowLegendKey = ShowLegendKey (Legend c)\<rparr>,
      Title = map parseChartOptions_run (Title c),
      VaryColors = (if VaryColors c = None then Some True else VaryColors c),
      ShowBlanksAs = (if ShowBlanksAs c = [] then ''gap'' else ShowBlanksAs c)\<rparr>"
proof (rule Chart.equality)
  show "Format (parseChartOptions_fill c) = Format \<lparr>Chart.Type = Chart.Type c,
      Format =
        \<lparr>PrintObject = (if PrintObject (Format c) = None then Some True
                         else PrintObject (Format c)),
         Locked = (if Locked (Format c) = None then Some False else Locked (Format c)),
         ScaleX = (if float64_is_zero (ScaleX (Format c)) then float64_1
                   else ScaleX (Format c)),
         ScaleY = (if float64_is_zero (ScaleY (Format c)) then float64_1
                   else ScaleY (Format c))\<rparr>,
      Dimension =
        \<lparr>Width = (if Width (Dimension c) = 0 then 480 else Width (Dimension c)),
         Height = (if Height (Dimension c) = 0 then 260 else Height (Dimension c))\<rparr>,
      Legend =
        \<lparr>Position = (if Position (Legend c) = [] then ''bottom'' else Position (Legend c)),
         ShowLegendKey = ShowLegendKey (Legend c)\<rparr>,
      Title = map parseChartOptions_run (Title c),
      VaryColors = (if VaryColors c = None then Some True else VaryColors c),
      ShowBlanksAs = (if ShowBlanksAs c = [] then ''gap'' else ShowBlanksAs c)\<rparr>"
    by (cases "Format c") (simp add: fill_updates defaultPictureScale_def)
qed (cases "Dimension c"; cases "Legend c";
     simp add: fill_updates defaultChartDimensionWidth_def defaultChartDimensionHeight_def
       defaultChartLegendPosition_def defaultChartShowBlanksAs_def)+

subsection \<open>The loop over the combo charts\<close>

lemma combo_loop:
  "getChartOptions_combo acc combo =
     (acc @ List.map_filter (map_option parseChartOptions_fill)
              (takeWhile (\<lambda>x. checkChart x = None) combo),
      firstFailure combo)"
proof (induction combo arbitrary: acc)
  case Nil
  show ?case by (simp add: firstFailure_def map_filter_simps)
next
  case (Cons x combo)
  show ?case
  proof (cases x)
    case None
    then show ?thesis
      by (simp add: parseChartOptions_def checkChart_def firstFailure_def map_filter_simps)
  next
    case (Some c)
    show ?thesis
    proof (cases "map_of chartValAxNumFmtFormatCode (Chart.Type c) = None")
      case True
      with Some show ?thesis
        by (simp add: parseChartOptions_def checkChart_def firstFailure_def
            parseChartOptions_fill_Type newUnsupportedChartType_def domIff map_filter_simps)
    next
      case False
      with Some have ok: "checkChart x = None" by (auto simp: checkChart_def domIff)
      from Some False show ?thesis
        using Cons.IH [of "acc @ [parseChartOptions_fill c]"] ok
        by (simp add: parseChartOptions_def parseChartOptions_fill_Type firstFailure_def
            map_filter_simps)
    qed
  qed
qed

lemma firstFailure_snoc:
  "firstFailure (xs @ [y]) = (case firstFailure xs of None \<Rightarrow> checkChart y | Some e \<Rightarrow> Some e)"
proof (induction xs)
  case Nil
  show ?case by (cases "checkChart y") (simp_all add: firstFailure_def)
next
  case (Cons x xs)
  then show ?case by (cases "checkChart x") (simp_all add: firstFailure_def)
qed

lemma getChartOptions_eq:
  "getChartOptions (Some c) combo =
     (Some (parseChartOptions_fill c),
      List.map_filter (map_option parseChartOptions_fill)
        (takeWhile (\<lambda>x. checkChart x = None) combo),
      firstFailure (combo @ [Some c]))"
proof (cases "firstFailure combo")
  case None
  then show ?thesis
    by (simp add: getChartOptions_def parseChartOptions_def combo_loop firstFailure_snoc
      parseChartOptions_fill_Type newUnsupportedChartType_def checkChart_def domIff)
next
  case (Some e)
  then show ?thesis
    by (simp add: getChartOptions_def parseChartOptions_def combo_loop firstFailure_snoc)
qed


lemma firstFailure_None_iff:
  "firstFailure xs = None \<longleftrightarrow> (\<forall>x\<in>set xs. checkChart x = None)"
  by (induction xs) (auto simp: firstFailure_def)

lemma checkChart_Some:
  "checkChart (Some c) =
     (if Chart.Type c \<in> dom (map_of chartValAxNumFmtFormatCode) then None
      else Some (ErrUnsupportedChartType (Chart.Type c)))"
  by (simp add: checkChart_def)

lemma chartOfType_Type: "Chart.Type (chartOfType t) = t"
  by (simp add: chartOfType_def)


section \<open>Properties of the data validation builder\<close>

lemmas DataValidationType_defs =
  typeNone_def DataValidationTypeCustom_def DataValidationTypeDate_def
  DataValidationTypeDecimal_def typeList_def DataValidationTypeTextLeng_def
  DataValidationTypeTime_def DataValidationTypeWhole_def

lemmas DataValidationOperator_defs =
  DataValidationOperatorBetween_def DataValidationOperatorEqual_def
  DataValidationOperatorGreaterThan_def DataValidationOperatorGreaterThanOrEqual_def
  DataValidationOperatorLessThan_def DataValidationOperatorLessThanOrEqual_def
  DataValidationOperatorNotBetween_def DataValidationOperatorNotEqual_def

lemmas DataValidationErrorStyle_defs =
  DataValidationErrorStyleStop_def DataValidationErrorStyleWarning_def
  DataValidationErrorStyleInformation_def styleStop_def styleWarning_def styleInformation_def

lemma convDataValidationType_typeList: "convDataValidationType typeList = ''list''"
  by (simp add: convDataValidationType_def DataValidationType_defs)

lemma convDataValidationType_Whole: "convDataValidationType DataValidationTypeWhole = ''whole''"
  by (simp add: convDataValidationType_def DataValidationType_defs)

lemma convDataValidationOperatior_Between:
  "convDataValidationOperatior DataValidationOperatorBetween = ''between''"
  by (simp add: convDataValidationOperatior_def DataValidationOperator_defs)

lemma Itoa_10_20: "Itoa 10 = ''10''" "Itoa 20 = ''20''"
  by (simp_all add: Itoa_def decimal.simps digit_def)

lemma SetRange_eq:
  "SetRange f1 f2 t o' dd =
     (if 257 < length (Formula1 dd) \<or> 257 < length (Formula2 dd)
      then (Some (Errorf dataValidationFormulaStrLenErr), dd)
      else (None, dd\<lparr>Formula1 := Itoa f1, Formula2 := Itoa f2,
                       DataValidation.Type := convDataValidationType t,
                       Operator := convDataValidationOperatior o'\<rparr>))"
  by (simp add: SetRange_def Let_def dataValidationFormulaStrLen_def)

lemma SetDropList_eq:
  "SetDropList keys dd =
     (None, dd\<lparr>Formula1 := [CHR 0x22] @ Join keys '','' @ [CHR 0x22],
                DataValidation.Type := ''list''\<rparr>)"
  by (simp add: SetDropList_def Let_def dquote_def convDataValidationType_typeList)

section \<open>The claims\<close>

text \<open>
  Claim C1, as amended. For every chart configuration whose type is a key of the
  supported-type table \<open>chartValAxNumFmtFormatCode\<close> (the 55 enumerated chart types, the
  byte values below 55) and with no combo charts, \<open>getChartOptions\<close> returns without
  error. For every configuration whose type is not a key of the table it fails; the error
  is the unsupported-chart-type error identifying that type whenever every combo chart is
  present and of a supported type, in particular when there is no combo chart.
\<close>

theorem getChartOptions_supported_types:
  "(Chart.Type c \<in> dom (map_of chartValAxNumFmtFormatCode)
      \<longrightarrow> snd (snd (getChartOptions (Some c) [])) = None)
   \<and> (Chart.Type c \<notin> dom (map_of chartValAxNumFmtFormatCode)
      \<longrightarrow> snd (snd (getChartOptions (Some c) combo)) \<noteq> None)
   \<and> (Chart.Type c \<notin> dom (map_of chartValAxNumFmtFormatCode) \<and> (\<forall>x\<in>set combo. checkChart x = None)
      \<longrightarrow> snd (snd (getChartOptions (Some c) combo)) = Some (newUnsupportedChartType (Chart.Type c)))
   \<and> (Chart.Type c \<in> dom (map_of chartValAxNumFmtFormatCode) \<longleftrightarrow> unat (Chart.Type c) < 55)
   \<and> length chartValAxNumFmtFormatCode = 55"
proof (intro conjI impI)
  assume "Chart.Type c \<in> dom (map_of chartValAxNumFmtFormatCode)"
  then show "snd (snd (getChartOptions (Some c) [])) = None"
    by (simp add: getChartOptions_eq firstFailure_def checkChart_Some)
next
  assume "Chart.Type c \<notin> dom (map_of chartValAxNumFmtFormatCode)"
  then show "snd (snd (getChartOptions (Some c) combo)) \<noteq> None"
    by (simp add: getChartOptions_eq firstFailure_snoc checkChart_Some split: option.splits)
next
  assume "Chart.Type c \<notin> dom (map_of chartValAxNumFmtFormatCode) \<and> (\<forall>x\<in>set combo. checkChart x = None)"
  then show "snd (snd (getChartOptions (Some c) combo)) = Some (newUnsupportedChartType (Chart.Type c))"
    by (simp add: getChartOptions_eq firstFailure_snoc checkChart_Some newUnsupportedChartType_def
        firstFailure_None_iff [symmetric])
next
  show "(Chart.Type c \<in> dom (map_of chartValAxNumFmtFormatCode)) = (unat (Chart.Type c) < 55)"
    by (simp add: supported_iff word_less_nat_alt)
next
  have "length (map fst chartValAxNumFmtFormatCode) = 55" by (simp only: table_keys length_map length_upt)
  then show "length chartValAxNumFmtFormatCode = 55" by simp
qed

text \<open>
  The theorem of C1 at concrete inputs: an area chart without combo charts is accepted;
  a chart of the unsupported type 200, combined with a line chart, is refused with the
  error that identifies 200.
\<close>

theorem getChartOptions_supported_types_witness:
  "Chart.Type (chartOfType Area) \<in> dom (map_of chartValAxNumFmtFormatCode)
   \<and> snd (snd (getChartOptions (Some (chartOfType Area)) [])) = None
   \<and> Chart.Type (chartOfType 200) \<notin> dom (map_of chartValAxNumFmtFormatCode)
   \<and> checkChart (Some (chartOfType Line)) = None
   \<and> snd (snd (getChartOptions (Some (chartOfType 200)) [Some (chartOfType Line)]))
       = Some (newUnsupportedChartType 200)"
proof -
  have a: "Chart.Type (chartOfType Area) \<in> dom (map_of chartValAxNumFmtFormatCode)"
    by (simp add: supported_iff chartOfType_def Area_def)
  have b: "Chart.Type (chartOfType 200) \<notin> dom (map_of chartValAxNumFmtFormatCode)"
    by (simp add: supported_iff chartOfType_def)
  have c: "checkChart (Some (chartOfType Line)) = None"
    by (simp add: checkChart_def supported_iff chartOfType_def Line_def)
  have d: "Chart.Type (chartOfType 200) = 200" by (simp add: chartOfType_def)
  show ?thesis
    using a b c d
      getChartOptions_supported_types [of "chartOfType Area" "[]"]
      getChartOptions_supported_types [of "chartOfType 200" "[Some (chartOfType Line)]"]
    by simp
qed

text \<open>
  Claim C1 as it was stated fails: the primary chart has the unsupported type 100 and
  the only combo chart has the unsupported type 101. The loop over the combo charts returns
  first, and the error identifies 101, not the type of the primary chart.
\<close>

theorem getChartOptions_unsupported_primary_counterexample:
  "map_of chartValAxNumFmtFormatCode (Chart.Type (chartOfType 100)) = None
   \<and> snd (snd (getChartOptions (Some (chartOfType 100)) [Some (chartOfType 101)]))
       = Some (newUnsupportedChartType 101)
   \<and> newUnsupportedChartType 101 \<noteq> newUnsupportedChartType (Chart.Type (chartOfType 100))"
proof -
  have t: "Chart.Type (chartOfType 100) = 100" "Chart.Type (chartOfType 101) = 101"
    by (simp_all add: chartOfType_def)
  have n: "(100::ChartType) \<notin> dom (map_of chartValAxNumFmtFormatCode)"
    "(101::ChartType) \<notin> dom (map_of chartValAxNumFmtFormatCode)"
    by (simp_all add: supported_iff)
  from n(1) have "map_of chartValAxNumFmtFormatCode (100::ChartType) = None" by (simp add: domIff)
  then show ?thesis
    using n by (simp add: t getChartOptions_eq firstFailure_def checkChart_Some newUnsupportedChartType_def)
qed

text \<open>
  Claim C2, as amended. \<open>getChartOptions\<close> defaults the primary chart first. The combo
  charts are then taken in list order, each one defaulted on its own and its type checked
  against the supported-type table; the type of the primary chart is checked only after
  every combo chart. The first check that fails in that order (the combo charts from left
  to right, then the primary chart) ends the operation: with the unsupported-chart-type
  error identifying that type, or with the invalid-parameter error for a nil combo chart.
  The combo charts returned are the defaulted ones that came before the failure.
\<close>

theorem getChartOptions_check_order:
  "fst (getChartOptions (Some c) combo) = Some (parseChartOptions_fill c)
   \<and> fst (snd (getChartOptions (Some c) combo))
       = List.map_filter (map_option parseChartOptions_fill)
           (takeWhile (\<lambda>x. checkChart x = None) combo)
   \<and> snd (snd (getChartOptions (Some c) combo)) = firstFailure (combo @ [Some c])
   \<and> parseChartOptions (Some c) = Inr (parseChartOptions_fill c)"
  by (simp add: getChartOptions_eq parseChartOptions_def)

text \<open>
  Claim C2 as it was stated fails: the primary chart has the unsupported type 200, the
  first combo chart is a line chart and the second has the unsupported type 201. The line
  chart is defaulted and accepted although the type of the primary chart is not in the
  table, and the error identifies 201: the primary chart is checked last.
\<close>

theorem getChartOptions_primary_checked_last_counterexample:
  "map_of chartValAxNumFmtFormatCode (Chart.Type (chartOfType 200)) = None
   \<and> getChartOptions (Some (chartOfType 200)) [Some (chartOfType Line), Some (chartOfType 201)]
       = (Some (parseChartOptions_fill (chartOfType 200)),
          [parseChartOptions_fill (chartOfType Line)],
          Some (newUnsupportedChartType 201))
   \<and> newUnsupportedChartType 201 \<noteq> newUnsupportedChartType (Chart.Type (chartOfType 200))"
proof -
  have n: "(200::ChartType) \<notin> dom (map_of chartValAxNumFmtFormatCode)"
    "(201::ChartType) \<notin> dom (map_of chartValAxNumFmtFormatCode)"
    "Line \<in> dom (map_of chartValAxNumFmtFormatCode)"
    by (simp_all add: supported_iff Line_def)
  from n(1) have "map_of chartValAxNumFmtFormatCode (200::ChartType) = None"
    by (simp add: domIff)
  then show ?thesis
    using n
    by (simp add: getChartOptions_eq chartOfType_Type firstFailure_def checkChart_Some
        newUnsupportedChartType_def map_filter_simps)
qed

text \<open>
  Claim C3 does not hold of the code. \<open>SetDropList\<close> stores the formula without looking
  at its length: one key of 300 characters gives a formula of 302 characters, above the
  limit of 257, and no error. The check of \<open>SetRange\<close> reads the stored formulas, so the
  next \<open>SetRange\<close> is refused although its own formulas are two characters long, and the
  overlong formula stays in the rule.
\<close>

theorem SetDropList_accepts_overlong_formula:
  "fst (SetDropList [replicate 300 CHR ''a''] (NewDataValidation True)) = None
   \<and> length (Formula1 (snd (SetDropList [replicate 300 CHR ''a''] (NewDataValidation True)))) = 302
   \<and> dataValidationFormulaStrLen = 257
   \<and> SetRange 10 20 DataValidationTypeWhole DataValidationOperatorBetween
        (snd (SetDropList [replicate 300 CHR ''a''] (NewDataValidation True)))
       = (Some (Errorf dataValidationFormulaStrLenErr),
          snd (SetDropList [replicate 300 CHR ''a''] (NewDataValidation True)))"
  by (simp add: SetDropList_eq SetRange_eq dataValidationFormulaStrLen_def)

text \<open>
  Claim C4. \<open>SetRange\<close> fails with the length error exactly when the \<open>Formula1\<close> or
  the \<open>Formula2\<close> that the rule had before the call is longer than the limit of 257
  characters, whatever the new bounds are. Otherwise it succeeds and stores the two bounds
  as decimal numerals with the keywords of the type and of the operator;
  \<open>SetRange(10, 20, DataValidationTypeWhole, DataValidationOperatorBetween)\<close> on a fresh rule
  gives the formulas 10 and 20, the type whole and the operator between.
\<close>

theorem SetRange_checks_prior_formulas:
  "(fst (SetRange f1 f2 t o' dd) = Some (Errorf dataValidationFormulaStrLenErr)
      \<longleftrightarrow> dataValidationFormulaStrLen < length (Formula1 dd)
          \<or> dataValidationFormulaStrLen < length (Formula2 dd))
   \<and> (\<not> (dataValidationFormulaStrLen < length (Formula1 dd)
          \<or> dataValidationFormulaStrLen < length (Formula2 dd))
      \<longrightarrow> SetRange f1 f2 t o' dd
            = (None, dd\<lparr>Formula1 := Itoa f1, Formula2 := Itoa f2,
                         DataValidation.Type := convDataValidationType t,
                         Operator := convDataValidationOperatior o'\<rparr>))
   \<and> dataValidationFormulaStrLen = 257
   \<and> SetRange 10 20 DataValidationTypeWhole DataValidationOperatorBetween (NewDataValidation b)
       = (None, (NewDataValidation b)\<lparr>Formula1 := ''10'', Formula2 := ''20'',
                   DataValidation.Type := ''whole'', Operator := ''between''\<rparr>)"
  by (simp add: SetRange_eq dataValidationFormulaStrLen_def Itoa_10_20 convDataValidationType_Whole
      convDataValidationOperatior_Between NewDataValidation_def)

text \<open>
  The theorem of C4 at concrete inputs: after a drop list whose formula has 258
  characters \<open>SetRange\<close> is refused; on a fresh rule it succeeds.
\<close>

theorem SetRange_checks_prior_formulas_witness:
  "dataValidationFormulaStrLen
     < length (Formula1 (snd (SetDropList [replicate 256 CHR ''a''] (NewDataValidation True))))
   \<and> fst (SetRange 1 2 DataValidationTypeWhole DataValidationOperatorBetween
            (snd (SetDropList [replicate 256 CHR ''a''] (NewDataValidation True))))
       = Some (Errorf dataValidationFormulaStrLenErr)
   \<and> \<not> (dataValidationFormulaStrLen < length (Formula1 (NewDataValidation True))
         \<or> dataValidationFormulaStrLen < length (Formula2 (NewDataValidation True)))
   \<and> SetRange 1 2 DataValidationTypeWhole DataValidationOperatorBetween (NewDataValidation True)
       = (None, (NewDataValidation True)\<lparr>Formula1 := ''1'', Formula2 := ''2'',
                   DataValidation.Type := ''whole'', Operator := ''between''\<rparr>)"
proof -
  have long: "dataValidationFormulaStrLen
     < length (Formula1 (snd (SetDropList [replicate 256 CHR ''a''] (NewDataValidation True))))"
    by (simp add: SetDropList_eq dataValidationFormulaStrLen_def)
  have fresh: "\<not> (dataValidationFormulaStrLen < length (Formula1 (NewDataValidation True))
         \<or> dataValidationFormulaStrLen < length (Formula2 (NewDataValidation True)))"
    by (simp add: NewDataValidation_def)
  have itoa: "Itoa 1 = ''1''" "Itoa 2 = ''2''"
    by (simp_all add: Itoa_def decimal.simps digit_def)
  show ?thesis
    using long fresh
      SetRange_checks_prior_formulas [of 1 2 DataValidationTypeWhole DataValidationOperatorBetween
        "snd (SetDropList [replicate 256 CHR ''a''] (NewDataValidation True))"]
      SetRange_checks_prior_formulas [of 1 2 DataValidationTypeWhole DataValidationOperatorBetween
        "NewDataValidation True"]
    by (simp add: itoa convDataValidationType_Whole convDataValidationOperatior_Between)
qed

text \<open>
  Claim C5. \<open>parseChartOptions\<close> is idempotent on a configuration that is not nil:
  it succeeds, and applied to its own result it returns that result unchanged. It only
  fills fields that are at their zero value: in the result a width or height of 0 has
  become 480 or 260, a missing print-object flag is on, a missing locked flag is off, a
  scale of 0 is 1.0, an empty legend position is bottom, every title run has a font, in
  which an empty colour is 595959 and a size of 0 is 14, a missing vary-colors flag is on
  and an empty blanks setting is gap; every field that was set keeps its value, and so do
  the chart type, the show-key flag of the legend and the text of each title run. On a
  configuration whose fields are all at their zero values this gives width 480, height
  260, print-object on, locked off, both scales 1.0, the legend position bottom, the
  colour 595959 and the size 14 of the font of a title run, vary-colors on and blanks
  shown as gaps.
\<close>

theorem parseChartOptions_idempotent:
  "(\<exists>c'. parseChartOptions (Some c) = Inr c' \<and> parseChartOptions (Some c') = Inr c')
   \<and> parseChartOptions
        (Some \<lparr>Chart.Type = t,
               Format = \<lparr>PrintObject = None, Locked = None, ScaleX = 0, ScaleY = 0\<rparr>,
               Dimension = \<lparr>Width = 0, Height = 0\<rparr>,
               Legend = \<lparr>Position = [], ShowLegendKey = k\<rparr>,
               Title = [\<lparr>Font = None, Text = s\<rparr>],
               VaryColors = None,
               ShowBlanksAs = []\<rparr>)
       = Inr \<lparr>Chart.Type = t,
              Format = \<lparr>PrintObject = Some True, Locked = Some False,
                        ScaleX = float64_1, ScaleY = float64_1\<rparr>,
              Dimension = \<lparr>Width = 480, Height = 260\<rparr>,
              Legend = \<lparr>Position = ''bottom'', ShowLegendKey = k\<rparr>,
              Title = [\<lparr>Font = Some \<lparr>Color = ''595959'', Size = float64_14\<rparr>, Text = s\<rparr>],
              VaryColors = Some True,
              ShowBlanksAs = ''gap''\<rparr>
   \<and> parseChartOptions (Some c)
       = Inr \<lparr>Chart.Type = Chart.Type c,
              Format =
                \<lparr>PrintObject = (if PrintObject (Format c) = None then Some True
                                 else PrintObject (Format c)),
                 Locked = (if Locked (Format c) = None then Some False
                            else Locked (Format c)),
                 ScaleX = (if float64_is_zero (ScaleX (Format c)) then float64_1
                           else ScaleX (Format c)),
                 ScaleY = (if float64_is_zero (ScaleY (Format c)) then float64_1
                           else ScaleY (Format c))\<rparr>,
              Dimension =
                \<lparr>Width = (if Width (Dimension c) = 0 then 480 else Width (Dimension c)),
                 Height = (if Height (Dimension c) = 0 then 260
                           else Height (Dimension c))\<rparr>,
              Legend =
                \<lparr>Position = (if Position (Legend c) = [] then ''bottom''
                              else Position (Legend c)),
                 ShowLegendKey = ShowLegendKey (Legend c)\<rparr>,
              Title =
                map (\<lambda>run.
                      \<lparr>Font = Some (case Font run of
                                      None \<Rightarrow> \<lparr>Color = ''595959'', Size = float64_14\<rparr>
                                    | Some fnt \<Rightarrow>
                                        \<lparr>Color = (if Color fnt = [] then ''595959''
                                                  else Color fnt),
                                         Size = (if float64_is_zero (Size fnt) then float64_14
                                                 else Size fnt)\<rparr>),
                       Text = Text run\<rparr>)
                  (Title c),
              VaryColors = (if VaryColors c = None then Some True else VaryColors c),
              ShowBlanksAs = (if ShowBlanksAs c = [] then ''gap'' else ShowBlanksAs c)\<rparr>"
proof (intro conjI)
  show "\<exists>c'. parseChartOptions (Some c) = Inr c' \<and> parseChartOptions (Some c') = Inr c'"
    by (simp add: parseChartOptions_def parseChartOptions_fill_idem)
next
  show "parseChartOptions
        (Some \<lparr>Chart.Type = t,
               Format = \<lparr>PrintObject = None, Locked = None, ScaleX = 0, ScaleY = 0\<rparr>,
               Dimension = \<lparr>Width = 0, Height = 0\<rparr>,
               Legend = \<lparr>Position = [], ShowLegendKey = k\<rparr>,
               Title = [\<lparr>Font = None, Text = s\<rparr>],
               VaryColors = None,
               ShowBlanksAs = []\<rparr>)
       = Inr \<lparr>Chart.Type = t,
              Format = \<lparr>PrintObject = Some True, Locked = Some False,
                        ScaleX = float64_1, ScaleY = float64_1\<rparr>,
              Dimension = \<lparr>Width = 480, Height = 260\<rparr>,
              Legend = \<lparr>Position = ''bottom'', ShowLegendKey = k\<rparr>,
              Title = [\<lparr>Font = Some \<lparr>Color = ''595959'', Size = float64_14\<rparr>, Text = s\<rparr>],
              VaryColors = Some True,
              ShowBlanksAs = ''gap''\<rparr>"
    by (simp add: parseChartOptions_def fill_updates parseChartOptions_run_def Let_def zeroFont_def
        float64_is_zero_def defaultChartDimensionWidth_def defaultChartDimensionHeight_def
        defaultPictureScale_def defaultChartLegendPosition_def defaultChartShowBlanksAs_def)
next
  have "map parseChartOptions_run (Title c) = map (\<lambda>run.
                      \<lparr>Font = Some (case Font run of
                                      None \<Rightarrow> \<lparr>Color = ''595959'', Size = float64_14\<rparr>
                                    | Some fnt \<Rightarrow>
                                        \<lparr>Color = (if Color fnt = [] then ''595959''
                                                  else Color fnt),
                                         Size = (if float64_is_zero (Size fnt) then float64_14
                                                 else Size fnt)\<rparr>),
                       Text = Text run\<rparr>)
                  (Title c)"
    by (rule map_cong [OF refl]) (rule parseChartOptions_run_eq)
  then show "parseChartOptions (Some c)
       = Inr \<lparr>Chart.Type = Chart.Type c,
              Format =
                \<lparr>PrintObject = (if PrintObject (Format c) = None then Some True
                                 else PrintObject (Format c)),
                 Locked = (if Locked (Format c) = None then Some False
                            else Locked (Format c)),
                 ScaleX = (if float64_is_zero (ScaleX (Format c)) then float64_1
                           else ScaleX (Format c)),
                 ScaleY = (if float64_is_zero (ScaleY (Format c)) then float64_1
                           else ScaleY (Format c))\<rparr>,
              Dimension =
                \<lparr>Width = (if Width (Dimension c) = 0 then 480 else Width (Dimension c)),
                 Height = (if Height (Dimension c) = 0 then 260
                           else Height (Dimension c))\<rparr>,
              Legend =
                \<lparr>Position = (if Position (Legend c) = [] then ''bottom''
                              else Position (Legend c)),
                 ShowLegendKey = ShowLegendKey (Legend c)\<rparr>,
              Title =
                map (\<lambda>run.
                      \<lparr>Font = Some (case Font run of
                                      None \<Rightarrow> \<lparr>Color = ''595959'', Size = float64_14\<rparr>
                                    | Some fnt \<Rightarrow>
                                        \<lparr>Color = (if Color fnt = [] then ''595959''
                                                  else Color fnt),
                                         Size = (if float64_is_zero (Size fnt) then float64_14
                                                 else Size fnt)\<rparr>),
                       Text = Text run\<rparr>)
                  (Title c),
              VaryColors = (if VaryColors c = None then Some True else VaryColors c),
              ShowBlanksAs = (if ShowBlanksAs c = [] then ''gap'' else ShowBlanksAs c)\<rparr>"
    by (simp only: parseChartOptions_def option.case parseChartOptions_fill_eq)
qed

text \<open>
  Claim C6. When the worksheet resolver fails for the sheet name, \<open>AddChart\<close> returns
  the resolver's error and runs none of its later steps, whatever the drawing, chart,
  relationship and content-type helpers would do: the file is the one the resolver left,
  so the part registry \<open>Pkg\<close> is unchanged when the failed resolution did not change it.
\<close>

theorem AddChart_unknown_sheet:
  assumes "workSheetReader env f sheet = (Inl err, f')"
  shows "AddChart env f sheet cell chart combo = (Some err, f')
         \<and> (Pkg f' = Pkg f \<longrightarrow> Pkg (snd (AddChart env f sheet cell chart combo)) = Pkg f)"
  using assms by (simp add: AddChart_def)

text \<open>
  The theorem of C6 at a concrete input: a resolver that knows only Sheet1, helpers that
  would add a drawing part, a relationship part and a chart part, and a call for the
  unknown sheet SheetN. The registry still holds the one worksheet part.
\<close>

theorem AddChart_unknown_sheet_witness:
  "AddChart
     \<lparr>workSheetReader = (\<lambda>f sheet. if sheet = ''Sheet1'' then (Inr (), f)
                                     else (Inl (Errorf ''sheet does not exist''), f)),
      countDrawings = (\<lambda>f. 0),
      prepareDrawing = (\<lambda>f ws drawingID sheet drawingXML.
         ((drawingID, drawingXML), f\<lparr>Pkg := (drawingXML, []) # Pkg f\<rparr>)),
      addRels = (\<lambda>f relPath relType target targetMode. (1, f\<lparr>Pkg := (relPath, target) # Pkg f\<rparr>)),
      addDrawingChart = (\<lambda>f sheet drawingXML cell width height rID opts. (None, f)),
      addChart = (\<lambda>f opts comboCharts. f\<lparr>Pkg := (''xl/charts/chart1.xml'', []) # Pkg f\<rparr>),
      addContentTypePart = (\<lambda>f index contentType. (None, f)),
      addSheetNameSpace = (\<lambda>f sheet ns. f),
      SourceRelationshipChart = ''chart'',
      SourceRelationship = ()\<rparr>
     \<lparr>Pkg = [(''xl/worksheets/sheet1.xml'', [])]\<rparr> ''SheetN'' ''A1'' (Some (chartOfType Line)) []
   = (Some (Errorf ''sheet does not exist''), \<lparr>Pkg = [(''xl/worksheets/sheet1.xml'', [])]\<rparr>)"
  using AddChart_unknown_sheet
    [of "\<lparr>workSheetReader = (\<lambda>f sheet. if sheet = ''Sheet1'' then (Inr (), f)
                                     else (Inl (Errorf ''sheet does not exist''), f)),
      countDrawings = (\<lambda>f. 0),
      prepareDrawing = (\<lambda>f ws drawingID sheet drawingXML.
         ((drawingID, drawingXML), f\<lparr>Pkg := (drawingXML, []) # Pkg f\<rparr>)),
      addRels = (\<lambda>f relPath relType target targetMode. (1, f\<lparr>Pkg := (relPath, target) # Pkg f\<rparr>)),
      addDrawingChart = (\<lambda>f sheet drawingXML cell width height rID opts. (None, f)),
      addChart = (\<lambda>f opts comboCharts. f\<lparr>Pkg := (''xl/charts/chart1.xml'', []) # Pkg f\<rparr>),
      addContentTypePart = (\<lambda>f index contentType. (None, f)),
      addSheetNameSpace = (\<lambda>f sheet ns. f),
      SourceRelationshipChart = ''chart'',
      SourceRelationship = ()\<rparr>"
     "\<lparr>Pkg = [(''xl/worksheets/sheet1.xml'', [])]\<rparr>" "''SheetN''"
     "Errorf ''sheet does not exist''" "\<lparr>Pkg = [(''xl/worksheets/sheet1.xml'', [])]\<rparr>"
     "''A1''" "Some (chartOfType Line)" "[]"]
  by simp

text \<open>
  Claim C7. For every list of keys \<open>SetDropList\<close> returns no error, whatever the length
  of the result, sets \<open>Formula1\<close> to the keys joined by commas between two double quotes, and
  sets the type to list. The keys 1, 2, 3 give the formula 1,2,3 between the two quotes.
\<close>

theorem SetDropList_builds_list_formula:
  "SetDropList keys dd
     = (None, dd\<lparr>Formula1 := [CHR 0x22] @ Join keys '','' @ [CHR 0x22],
                  DataValidation.Type := ''list''\<rparr>)
   \<and> Join [] '','' = []
   \<and> Join [k] '','' = k
   \<and> Join (k # k' # ks) '','' = k @ '','' @ Join (k' # ks) '',''
   \<and> Formula1 (snd (SetDropList [''1'', ''2'', ''3''] dd))
       = [CHR 0x22, CHR ''1'', CHR '','', CHR ''2'', CHR '','', CHR ''3'', CHR 0x22]
   \<and> DataValidation.Type (snd (SetDropList [''1'', ''2'', ''3''] dd)) = ''list''"
  by (simp add: SetDropList_eq)

text \<open>
  Claim C8. \<open>SetSqref\<close> stores the reference when \<open>Sqref\<close> is empty and otherwise
  appends it to the stored value after a single space; A1:B2 followed by C3:D4 on a fresh
  rule gives A1:B2 C3:D4.
\<close>

theorem SetSqref_appends:
  "SetSqref sqref dd
     = dd\<lparr>Sqref := (if Sqref dd = [] then sqref else Sqref dd @ '' '' @ sqref)\<rparr>
   \<and> Sqref (SetSqref ''C3:D4'' (SetSqref ''A1:B2'' (NewDataValidation b))) = ''A1:B2 C3:D4''"
  by (simp add: SetSqref_def NewDataValidation_def)

text \<open>
  Claim C9. For every style value \<open>SetError\<close> turns the error message on and stores the
  title and the message; the style keyword is stop, warning or information for the three
  declared styles, and stop for every other value.
\<close>

theorem SetError_style_keyword:
  "ShowErrorMessage (SetError style title msg dd) = True
   \<and> ErrorTitle (SetError style title msg dd) = Some title
   \<and> Error (SetError style title msg dd) = Some msg
   \<and> ErrorStyle (SetError DataValidationErrorStyleStop title msg dd) = Some ''stop''
   \<and> ErrorStyle (SetError DataValidationErrorStyleWarning title msg dd) = Some ''warning''
   \<and> ErrorStyle (SetError DataValidationErrorStyleInformation title msg dd) = Some ''information''
   \<and> (style \<noteq> DataValidationErrorStyleStop \<and> style \<noteq> DataValidationErrorStyleWarning
        \<and> style \<noteq> DataValidationErrorStyleInformation
      \<longrightarrow> ErrorStyle (SetError style title msg dd) = Some ''stop'')"
  by (simp add: SetError_def Let_def DataValidationErrorStyle_defs)

text \<open>
  The theorem of C9 at the style value 0, which is none of the three declared styles.
\<close>

theorem SetError_style_keyword_witness:
  "(0::DataValidationErrorStyle) \<noteq> DataValidationErrorStyleStop
   \<and> (0::DataValidationErrorStyle) \<noteq> DataValidationErrorStyleWarning
   \<and> (0::DataValidationErrorStyle) \<noteq> DataValidationErrorStyleInformation
   \<and> ErrorStyle (SetError 0 ''error title'' ''error body'' (NewDataValidation True)) = Some ''stop''"
proof -
  have h: "(0::DataValidationErrorStyle) \<noteq> DataValidationErrorStyleStop"
    "(0::DataValidationErrorStyle) \<noteq> DataValidationErrorStyleWarning"
    "(0::DataValidationErrorStyle) \<noteq> DataValidationErrorStyleInformation"
    by (simp_all add: DataValidationErrorStyle_defs)
  show ?thesis
    using h SetError_style_keyword [of 0 "''error title''" "''error body''" "NewDataValidation True"]
    by simp
qed

text \<open>
  Claim C10. When \<open>SetRange\<close> returns the formula-length error the rule is unchanged:
  \<open>Formula1\<close>, \<open>Formula2\<close>, \<open>Type\<close> and \<open>Operator\<close> keep the values they had before
  the call, like every other field.
\<close>

theorem SetRange_error_keeps_rule:
  assumes "fst (SetRange f1 f2 t o' dd) = Some (Errorf dataValidationFormulaStrLenErr)"
  shows "snd (SetRange f1 f2 t o' dd) = dd"
  using assms by (auto simp: SetRange_eq split: if_splits)

text \<open>
  The theorem of C10 at a rule whose \<open>Formula1\<close> has 258 characters.
\<close>

theorem SetRange_error_keeps_rule_witness:
  "fst (SetRange 10 20 DataValidationTypeWhole DataValidationOperatorBetween
          ((NewDataValidation True)\<lparr>Formula1 := replicate 258 CHR ''a''\<rparr>))
     = Some (Errorf dataValidationFormulaStrLenErr)
   \<and> snd (SetRange 10 20 DataValidationTypeWhole DataValidationOperatorBetween
          ((NewDataValidation True)\<lparr>Formula1 := replicate 258 CHR ''a''\<rparr>))
     = (NewDataValidation True)\<lparr>Formula1 := replicate 258 CHR ''a''\<rparr>"
proof -
  have h: "fst (SetRange 10 20 DataValidationTypeWhole DataValidationOperatorBetween
          ((NewDataValidation True)\<lparr>Formula1 := replicate 258 CHR ''a''\<rparr>))
     = Some (Errorf dataValidationFormulaStrLenErr)"
    by (simp add: SetRange_eq)
  show ?thesis
    using h SetRange_error_keeps_rule [OF h] by simp
qed

end
